theory Spec2Isabelle
  imports Complex_Main
begin

section \<open>Host side of the hologram generator (GenerateHologramCUDA.cu)\<close>

text \<open>
  The file holds the host functions \<^verbatim>\<open>GenerateHologram\<close>, \<^verbatim>\<open>Corrections\<close>,
  \<^verbatim>\<open>startCUDAandSLM\<close>, \<^verbatim>\<open>stopCUDAandSLM\<close> and \<^verbatim>\<open>GetAmps\<close>. They work on
  global variables and on device memory through the CUDA runtime. The model passes one
  state explicitly: the globals of the file, plus the part of the CUDA runtime the
  functions can observe (the live device allocations and the pending error).

  Conventions of the model.
  \<^item> A memory cell holds a value or is indeterminate (\<open>None\<close>): memory fresh from
    \<^verbatim>\<open>cudaMalloc\<close> is indeterminate. One type \<open>'v\<close> stands for the contents of a cell,
    whatever its C type (float, unsigned char, int, cufftComplex).
  \<^item> Sizes are counted in cells: the factor \<^verbatim>\<open>sizeof(T)\<close> that the source multiplies
    into every byte count is dropped, and the C integers are unbounded \<open>int\<close>.
  \<^item> A host array is the list of its cells. Reading or writing past the end of a host
    array is undefined in C; in the model such a copy fails with
    \<open>cudaErrorInvalidValue\<close> and transfers nothing.
  \<^item> The message box shown on an error (\<^verbatim>\<open>CUDAmessage\<close>, \<^verbatim>\<open>AfxMessageBox\<close>) is left out.
\<close>

subsection \<open>The CUDA runtime, as far as the host code observes it\<close>

datatype cudaError =
    cudaSuccess
  | cudaErrorInvalidValue
  | cudaErrorMemoryAllocation
  | cudaErrorInvalidConfiguration
  | cudaErrorLaunchFailure

datatype devptr = NULL | DevPtr nat

type_synonym 'v mem = "'v option list"

text \<open>
  \<open>heap\<close> maps the address of every live device allocation to its cells. Addresses are
  handed out in increasing order and never reused, so a pointer to a freed allocation
  stays recognisably dangling. Whether the driver grants an allocation is not decided by
  the program: \<open>alloc_oracle\<close> lists the outcomes of the allocations to come (\<open>False\<close>:
  out of memory); beyond its end allocations succeed. \<open>last_error\<close> is the error that
  \<^verbatim>\<open>cudaGetLastError\<close> would return.
\<close>

record 'v runtime =
  heap :: "nat \<Rightarrow> 'v mem option"
  next_block :: nat
  alloc_oracle :: "bool list"
  last_error :: cudaError

definition raise_error :: "cudaError \<Rightarrow> 'v runtime \<Rightarrow> 'v runtime" where
  "raise_error e s = s\<lparr>last_error := e\<rparr>"

text \<open>
  \<^verbatim>\<open>cudaMalloc(&p, n)\<close>: \<open>p\<close> is the value the pointer variable has before the call; the
  function returns its value after the call. A refused allocation leaves the variable
  as it was.
\<close>

definition granted :: "bool list \<Rightarrow> bool" where
  "granted oracle = (case oracle of [] \<Rightarrow> True | b # _ \<Rightarrow> b)"

definition cudaMalloc :: "devptr \<Rightarrow> int \<Rightarrow> 'v runtime \<Rightarrow> devptr \<times> 'v runtime" where
  "cudaMalloc p n s =
     (let s' = s\<lparr>alloc_oracle := tl (alloc_oracle s)\<rparr>
      in if n < 0 \<or> \<not> granted (alloc_oracle s)
         then (p, raise_error cudaErrorMemoryAllocation s')
         else (DevPtr (next_block s),
               s'\<lparr>heap := (heap s)(next_block s \<mapsto> replicate (nat n) None),
                  next_block := next_block s + 1\<rparr>))"

text \<open>\<^verbatim>\<open>cudaFree(p)\<close>: freeing \<^verbatim>\<open>NULL\<close> does nothing; freeing what is not live is an error.\<close>

definition cudaFree :: "devptr \<Rightarrow> 'v runtime \<Rightarrow> 'v runtime" where
  "cudaFree p s =
     (case p of
        NULL \<Rightarrow> s
      | DevPtr a \<Rightarrow>
          (case heap s a of
             None \<Rightarrow> raise_error cudaErrorInvalidValue s
           | Some _ \<Rightarrow> s\<lparr>heap := (heap s)(a := None)\<rparr>))"

text \<open>The cells of the allocation a pointer refers to, if it is live.\<close>

definition deref :: "'v runtime \<Rightarrow> devptr \<Rightarrow> 'v mem option" where
  "deref s p = (case p of NULL \<Rightarrow> None | DevPtr a \<Rightarrow> heap s a)"

definition store :: "devptr \<Rightarrow> 'v mem \<Rightarrow> 'v runtime \<Rightarrow> 'v runtime" where
  "store p cells s =
     (case p of NULL \<Rightarrow> s | DevPtr a \<Rightarrow> s\<lparr>heap := (heap s)(a \<mapsto> cells)\<rparr>)"

text \<open>Overwriting the first \<open>n\<close> cells of \<open>dst\<close> with the first \<open>n\<close> cells of \<open>src\<close>.\<close>

definition overwrite :: "nat \<Rightarrow> 'a list \<Rightarrow> 'a list \<Rightarrow> 'a list" where
  "overwrite n src dst = take n src @ drop n dst"

text \<open>
  \<^verbatim>\<open>cudaMemcpy\<close> in its three directions. A transfer of no cells succeeds whatever
  the pointers are. Otherwise the device side must be a live allocation, and both
  sides must hold at least \<open>n\<close> cells; a negative count is a huge \<^verbatim>\<open>size_t\<close>.
\<close>

definition cudaMemcpyHostToDevice ::
  "devptr \<Rightarrow> 'v mem \<Rightarrow> int \<Rightarrow> 'v runtime \<Rightarrow> cudaError \<times> 'v runtime" where
  "cudaMemcpyHostToDevice dst src n s =
     (if n = 0 then (cudaSuccess, s)
      else case deref s dst of
        None \<Rightarrow> (cudaErrorInvalidValue, raise_error cudaErrorInvalidValue s)
      | Some cells \<Rightarrow>
          if 0 < n \<and> nat n \<le> length cells \<and> nat n \<le> length src
          then (cudaSuccess, store dst (overwrite (nat n) src cells) s)
          else (cudaErrorInvalidValue, raise_error cudaErrorInvalidValue s))"

definition cudaMemcpyDeviceToHost ::
  "'v mem \<Rightarrow> devptr \<Rightarrow> int \<Rightarrow> 'v runtime \<Rightarrow> 'v mem \<times> 'v runtime" where
  "cudaMemcpyDeviceToHost dst src n s =
     (if n = 0 then (dst, s)
      else case deref s src of
        None \<Rightarrow> (dst, raise_error cudaErrorInvalidValue s)
      | Some cells \<Rightarrow>
          if 0 < n \<and> nat n \<le> length cells \<and> nat n \<le> length dst
          then (overwrite (nat n) cells dst, s)
          else (dst, raise_error cudaErrorInvalidValue s))"

definition cudaMemcpyDeviceToDevice ::
  "devptr \<Rightarrow> devptr \<Rightarrow> int \<Rightarrow> 'v runtime \<Rightarrow> 'v runtime" where
  "cudaMemcpyDeviceToDevice dst src n s =
     (if n = 0 then s
      else case (deref s dst, deref s src) of
        (Some d, Some c) \<Rightarrow>
          if 0 < n \<and> nat n \<le> length d \<and> nat n \<le> length c
          then store dst (overwrite (nat n) c d) s
          else raise_error cudaErrorInvalidValue s
      | _ \<Rightarrow> raise_error cudaErrorInvalidValue s)"

text \<open>\<^verbatim>\<open>cudaMemset(p, 0, n)\<close>; \<open>z\<close> is the value of a cell whose bytes are all zero.\<close>

definition cudaMemset :: "devptr \<Rightarrow> 'v \<Rightarrow> int \<Rightarrow> 'v runtime \<Rightarrow> 'v runtime" where
  "cudaMemset p z n s =
     (if n = 0 then s
      else case deref s p of
        None \<Rightarrow> raise_error cudaErrorInvalidValue s
      | Some cells \<Rightarrow>
          if 0 < n \<and> nat n \<le> length cells
          then store p (overwrite (nat n) (replicate (nat n) (Some z)) cells) s
          else raise_error cudaErrorInvalidValue s)"

text \<open>\<^verbatim>\<open>cudaGetLastError\<close> returns the pending error and clears it.\<close>

definition cudaGetLastError :: "'v runtime \<Rightarrow> cudaError \<times> 'v runtime" where
  "cudaGetLastError s = (last_error s, s\<lparr>last_error := cudaSuccess\<rparr>)"

text \<open>\<^verbatim>\<open>cudaDeviceReset\<close> destroys every allocation of the process on the device.\<close>

definition cudaDeviceReset :: "'v runtime \<Rightarrow> 'v runtime" where
  "cudaDeviceReset s = s\<lparr>heap := (\<lambda>_. None), last_error := cudaSuccess\<rparr>"

subsection \<open>The global variables of the file\<close>

text \<open>The calls made to the modulator driver, most recent first.\<close>

datatype 'v slm_call = LoadImg "'v mem" | SetPower bool | ShutDownSLM

record 'v state =
  dev :: "'v runtime"
  d_x :: devptr
  d_y :: devptr
  d_z :: devptr
  d_I :: devptr
  d_pSLM_f :: devptr
  d_weights :: devptr
  d_weights_start :: devptr
  d_amps :: devptr
  d_pSLMstart_f :: devptr
  d_spotRe_f :: devptr
  d_spotIm_f :: devptr
  d_AberrationCorr_f :: devptr
  d_LUTPolCoeff_f :: devptr
  N_LUTPolCoeff :: int
  n_blocks_Phi :: int
  memsize_SLMf :: int
  memsize_SLMuc :: int
  memsize_spotsf :: int
  data_w :: int
  N_pixels :: int
  N_iterations_last :: int
  d_pSLM_uc :: devptr
  d_LUT_uc :: devptr
  maxThreads_device :: int
  ApplyLUT_b :: bool
  EnableSLM_b :: bool
  UseAberrationCorr_b :: bool
  UseLUTPol_b :: bool
  status :: cudaError
  d_aLaserFFT :: devptr
  d_LUT_coeff :: devptr
  plan :: bool
  d_FFTo_cc :: devptr
  d_FFTd_cc :: devptr
  d_SLM_cc :: devptr
  d_spot_index :: devptr
  memsize_SLMcc :: int
  slm_calls :: "'v slm_call list"

subsection \<open>Corrections\<close>

text \<open>A runtime call that only changes the runtime, made from a state of the program.\<close>

definition on_dev :: "('v runtime \<Rightarrow> 'v runtime) \<Rightarrow> 'v state \<Rightarrow> 'v state" where
  "on_dev f s = s\<lparr>dev := f (dev s)\<rparr>"

text \<open>
  The end of every exported function: \<^verbatim>\<open>status = cudaGetLastError(); ... return status;\<close>
\<close>

definition return_status :: "'v state \<Rightarrow> cudaError \<times> 'v state" where
  "return_status s = (let (st, r) = cudaGetLastError (dev s) in (st, s\<lparr>dev := r, status := st\<rparr>))"

definition Ncoeff :: "int list" where
  "Ncoeff = [20, 35, 56, 84, 120]"

text \<open>
  \<^verbatim>\<open>int Corrections(int UseAberrationCorr, float *h_AberrationCorr, int ApplyLUT,
  int UseLUTPol, int PolOrder, float *h_LUTPolCoeff)\<close>, in the order of its statements:
  the three flags and the polynomial order (lines 250 to 257), the aberration map
  (lines 259 to 269), the polynomial table (lines 270 to 280), the status.
\<close>

definition Corrections_flags :: "int \<Rightarrow> int \<Rightarrow> int \<Rightarrow> int \<Rightarrow> 'v state \<Rightarrow> 'v state" where
  "Corrections_flags UseAberrationCorr ApplyLUT UseLUTPol PolOrder s =
     (let s1 = s\<lparr>UseAberrationCorr_b := (UseAberrationCorr \<noteq> 0),
                 ApplyLUT_b := (ApplyLUT \<noteq> 0),
                 UseLUTPol_b := (UseLUTPol \<noteq> 0)\<rparr>
      in if 3 \<le> PolOrder \<and> PolOrder \<le> 7
         then s1\<lparr>N_LUTPolCoeff := Ncoeff ! nat (PolOrder - 3)\<rparr>
         else s1\<lparr>UseLUTPol_b := False\<rparr>)"

definition Corrections_aberration :: "'v mem \<Rightarrow> 'v state \<Rightarrow> 'v state" where
  "Corrections_aberration h_AberrationCorr s =
     (if UseAberrationCorr_b s
      then (let sa = (if d_AberrationCorr_f s = NULL
                      then (let (p, r) = cudaMalloc (d_AberrationCorr_f s) (memsize_SLMf s) (dev s)
                            in s\<lparr>d_AberrationCorr_f := p, dev := r\<rparr>)
                      else s);
                (e, r) = cudaMemcpyHostToDevice (d_AberrationCorr_f sa)
                           h_AberrationCorr (memsize_SLMf sa) (dev sa)
            in sa\<lparr>dev := r, UseAberrationCorr_b := (e = cudaSuccess)\<rparr>)
      else if d_AberrationCorr_f s \<noteq> NULL
      then (on_dev (cudaFree (d_AberrationCorr_f s)) s)\<lparr>d_AberrationCorr_f := NULL\<rparr>
      else s)"

definition Corrections_LUTPol :: "'v mem \<Rightarrow> 'v state \<Rightarrow> 'v state" where
  "Corrections_LUTPol h_LUTPolCoeff s =
     (if UseLUTPol_b s
      then (let sa = (if d_LUTPolCoeff_f s = NULL
                      then (let (p, r) = cudaMalloc (d_LUTPolCoeff_f s) 120 (dev s)
                            in s\<lparr>d_LUTPolCoeff_f := p, dev := r\<rparr>)
                      else s);
                (e, r) = cudaMemcpyHostToDevice (d_LUTPolCoeff_f sa)
                           h_LUTPolCoeff (N_LUTPolCoeff sa) (dev sa)
            in sa\<lparr>dev := r, UseLUTPol_b := (e = cudaSuccess)\<rparr>)
      else if d_LUTPolCoeff_f s \<noteq> NULL
      then (on_dev (cudaFree (d_LUTPolCoeff_f s)) s)\<lparr>d_LUTPolCoeff_f := NULL\<rparr>
      else s)"

definition Corrections ::
  "int \<Rightarrow> 'v mem \<Rightarrow> int \<Rightarrow> int \<Rightarrow> int \<Rightarrow> 'v mem \<Rightarrow> 'v state \<Rightarrow> cudaError \<times> 'v state" where
  "Corrections UseAberrationCorr h_AberrationCorr ApplyLUT UseLUTPol PolOrder h_LUTPolCoeff s =
     return_status
       (Corrections_LUTPol h_LUTPolCoeff
         (Corrections_aberration h_AberrationCorr
           (Corrections_flags UseAberrationCorr ApplyLUT UseLUTPol PolOrder s)))"

subsection \<open>What the file takes from elsewhere\<close>

text \<open>
  The header \<^verbatim>\<open>GenerateHologramCUDA.h\<close> (the macros \<^verbatim>\<open>BLOCK_SIZE\<close> and \<^verbatim>\<open>SLM_SIZE\<close>), the
  device kernels, the cuFFT library and the modulator driver are not part of this source
  file. They are parameters of the model, and so is the arithmetic of \<^verbatim>\<open>float\<close>: the
  constants and operations the host code uses are the fields \<open>f_...\<close>, with no
  assumption on how they round.

  A kernel receives the state at its launch (the pointers and scalars passed to it are
  among the globals; the remaining scalar arguments are given explicitly) and yields an
  error code and the device memory it leaves behind.
\<close>

type_synonym 'v kernel = "'v state \<Rightarrow> cudaError \<times> (nat \<Rightarrow> 'v mem option)"

record 'v externals =
  BLOCK_SIZE :: int
  SLM_SIZE :: int
  maxThreadsPerBlock :: int
  f_zero :: 'v
  f_one :: 'v
  f_two :: 'v
  f_pi :: 'v
  f_of_int :: "int \<Rightarrow> 'v"
  f_mul :: "'v \<Rightarrow> 'v \<Rightarrow> 'v"
  f_div :: "'v \<Rightarrow> 'v \<Rightarrow> 'v"
  f_sqrt :: "'v \<Rightarrow> 'v"
  InitalizeSLM :: "bool \<Rightarrow> string \<Rightarrow> int \<Rightarrow> int \<times> 'v mem"
  LensesAndPrisms :: "int \<Rightarrow> 'v kernel"
  PropagateToSpotPositions_Fresnel :: "int \<Rightarrow> 'v kernel"
  PropagateToSLM_Fresnel :: "int \<Rightarrow> int \<Rightarrow> 'v \<Rightarrow> bool \<Rightarrow> 'v kernel"
  XYtoIndex :: "int \<Rightarrow> 'v kernel"
  ReplaceAmpsSpots_FFT :: "int \<Rightarrow> int \<Rightarrow> 'v \<Rightarrow> 'v kernel"
  ReplaceAmpsSLM_FFT :: "'v \<Rightarrow> 'v kernel"
  getPhases :: "'v kernel"
  cufftExecC2C :: "devptr \<Rightarrow> devptr \<Rightarrow> bool \<Rightarrow> 'v kernel"
  point_amplitude :: "'v option \<Rightarrow> 'v option \<Rightarrow> 'v option \<Rightarrow> 'v mem \<Rightarrow> int \<Rightarrow> int \<Rightarrow> 'v"

text \<open>
  A kernel cannot allocate, free or resize, and it reaches device memory only through the
  pointers passed to it: of the memory it returns, only the contents of the allocations
  that were live at the launch and that one of its pointer arguments (\<open>ptrs\<close>) refers to
  are taken over, at their length.
\<close>

definition commit ::
  "devptr list \<Rightarrow> (nat \<Rightarrow> 'v mem option) \<Rightarrow> (nat \<Rightarrow> 'v mem option) \<Rightarrow> nat \<Rightarrow> 'v mem option" where
  "commit ptrs old new a =
     (case old a of
        None \<Rightarrow> None
      | Some c \<Rightarrow>
          if DevPtr a \<in> set ptrs
          then (case new a of
                  None \<Rightarrow> Some c
                | Some c' \<Rightarrow> if length c' = length c then Some c' else Some c)
          else Some c)"

definition run_kernel :: "devptr list \<Rightarrow> 'v kernel \<Rightarrow> 'v state \<Rightarrow> 'v state" where
  "run_kernel ptrs k s =
     (let (e, h) = k s;
          r = (dev s)\<lparr>heap := commit ptrs (heap (dev s)) h\<rparr>
      in s\<lparr>dev := (if e = cudaSuccess then r else raise_error e r)\<rparr>)"

text \<open>
  \<^verbatim>\<open>k<<<grid, block>>>(...)\<close> followed by \<^verbatim>\<open>cudaDeviceSynchronize()\<close>: a launch with an
  empty grid or block is refused and the kernel does not run.
\<close>

definition launch :: "int \<Rightarrow> int \<Rightarrow> devptr list \<Rightarrow> 'v kernel \<Rightarrow> 'v state \<Rightarrow> 'v state" where
  "launch grid block ptrs k s =
     (if grid \<le> 0 \<or> block \<le> 0 then on_dev (raise_error cudaErrorInvalidConfiguration) s
      else run_kernel ptrs k s)"

text \<open>A pointer with an offset added (\<^verbatim>\<open>d_xall+offset\<close>), and the cells from there on.\<close>

type_synonym devloc = "devptr \<times> nat"

definition view :: "'v runtime \<Rightarrow> devloc \<Rightarrow> 'v mem option" where
  "view r l =
     (case deref r (fst l) of
        None \<Rightarrow> None
      | Some c \<Rightarrow> if snd l \<le> length c then Some (drop (snd l) c) else None)"




subsection \<open>GenerateHologram\<close>



text \<open>Lines 127 to 131: the spots go to the device.\<close>

definition upload_spots :: "'v mem \<Rightarrow> 'v mem \<Rightarrow> 'v mem \<Rightarrow> 'v mem \<Rightarrow> int \<Rightarrow> 'v state \<Rightarrow> 'v state" where
  "upload_spots x_spots y_spots z_spots I_spots N_spots s =
     (let s0 = s\<lparr>memsize_spotsf := N_spots\<rparr>;
          s1 = on_dev (\<lambda>r. snd (cudaMemcpyHostToDevice (d_x s0) x_spots (memsize_spotsf s0) r)) s0;
          s2 = on_dev (\<lambda>r. snd (cudaMemcpyHostToDevice (d_y s1) y_spots (memsize_spotsf s1) r)) s1;
          s3 = on_dev (\<lambda>r. snd (cudaMemcpyHostToDevice (d_z s2) z_spots (memsize_spotsf s2) r)) s2
      in on_dev (\<lambda>r. snd (cudaMemcpyHostToDevice (d_I s3) I_spots (memsize_spotsf s3) r)) s3)"

text \<open>
  A device-to-host copy made from a state of the program: the host array after the
  copy, and the state.
\<close>

definition download :: "'v mem \<Rightarrow> devptr \<Rightarrow> int \<Rightarrow> 'v state \<Rightarrow> 'v mem \<times> 'v state" where
  "download dst src n s =
     (let (h, r) = cudaMemcpyDeviceToHost dst src n (dev s) in (h, s\<lparr>dev := r\<rparr>))"

text \<open>
  Case 0 (lines 138 to 143). The results of the branches are the caller's pattern array,
  the caller's weight array and the state.
\<close>

definition synthesize :: "'v externals \<Rightarrow> int \<Rightarrow> 'v state \<Rightarrow> 'v state" where
  "synthesize X N_spots s =
     launch (n_blocks_Phi s) (BLOCK_SIZE X)
       [d_x s, d_y s, d_z s, d_I s, d_pSLM_uc s, d_LUT_uc s, d_AberrationCorr_f s,
        d_LUTPolCoeff_f s]
       (LensesAndPrisms X N_spots) s"


text \<open>Case 1: the seed (lines 150 to 153), one pass of the loop, the loop, the read-back.\<close>

definition Fresnel_seed :: "'v state \<Rightarrow> 'v state" where
  "Fresnel_seed s =
     (let s1 = on_dev (cudaMemcpyDeviceToDevice (d_weights s) (d_weights_start s) (memsize_spotsf s)) s
      in on_dev (cudaMemcpyDeviceToDevice (d_pSLMstart_f s1) (d_pSLM_f s1) (memsize_SLMf s1)) s1)"

definition Fresnel_pass :: "'v externals \<Rightarrow> int \<Rightarrow> int \<Rightarrow> 'v \<Rightarrow> int \<Rightarrow> 'v state \<Rightarrow> 'v state" where
  "Fresnel_pass X N_spots N_iterations alpha_RPC l s =
     (let s1 = launch N_spots 512
                 [d_x s, d_y s, d_z s, d_pSLM_f s, d_spotRe_f s, d_spotIm_f s]
                 (PropagateToSpotPositions_Fresnel X N_spots) s
      in launch 512 512
           [d_x s1, d_y s1, d_z s1, d_I s1, d_spotRe_f s1, d_spotIm_f s1, d_pSLM_f s1,
            d_weights s1, d_pSLMstart_f s1, d_amps s1, d_pSLM_uc s1, d_LUT_uc s1,
            d_AberrationCorr_f s1, d_LUTPolCoeff_f s1]
           (PropagateToSLM_Fresnel X N_spots l alpha_RPC (l = N_iterations - 1)) s1)"


definition read_back ::
  "int \<Rightarrow> int \<Rightarrow> 'v mem \<Rightarrow> 'v mem \<Rightarrow> 'v state \<Rightarrow> 'v mem \<times> 'v mem \<times> 'v state" where
  "read_back N_spots N_iterations h_pSLM_uc h_weights s =
     (let (h_pSLM_uc', s1) = download h_pSLM_uc (d_pSLM_uc s) (memsize_SLMuc s) s;
          (h_weights', s2) = download h_weights (d_amps s1) (N_spots * N_iterations) s1
      in (h_pSLM_uc', h_weights', s2))"


text \<open>
  Case 2. \<^verbatim>\<open>for (int i=0; i < N; ++i) h[i] = w;\<close> on a host array (lines 185 to 188,
  and lines 316 to 319 of the session start). A write past the end of the array,
  undefined in C, changes nothing in the model.
\<close>

function fill :: "'a \<Rightarrow> int \<Rightarrow> int \<Rightarrow> 'a list \<Rightarrow> 'a list" where
  "fill w N i h = (if i < N then fill w N (i + 1) (h[nat i := w]) else h)"
  by pat_completeness auto
termination
  by (relation "measure (\<lambda>(w, N, i, h). nat (N - i))") auto

definition FFT_weight :: "'v externals \<Rightarrow> int \<Rightarrow> 'v" where
  "FFT_weight X N_spots = f_div X (f_one X) (f_of_int X N_spots)"


text \<open>Lines 183 to 195: the result is the caller's weight array and the state.\<close>

definition FFT_seed :: "'v externals \<Rightarrow> int \<Rightarrow> 'v mem \<Rightarrow> 'v state \<Rightarrow> 'v mem \<times> 'v state" where
  "FFT_seed X N_spots h_weights s =
     (let weight = FFT_weight X N_spots;
          h_weights' = fill (Some weight) N_spots 0 h_weights;
          s1 = on_dev (\<lambda>r. snd (cudaMemcpyHostToDevice (d_weights s) h_weights' N_spots r)) s;
          s2 = on_dev (cudaMemset (d_FFTd_cc s1) (f_zero X) (memsize_SLMcc s1)) s1;
          s3 = launch 1 N_spots [d_x s2, d_y s2, d_spot_index s2] (XYtoIndex X N_spots) s2
      in (h_weights', s3))"

definition FFT_pass :: "'v externals \<Rightarrow> int \<Rightarrow> 'v \<Rightarrow> 'v \<Rightarrow> int \<Rightarrow> 'v state \<Rightarrow> 'v state" where
  "FFT_pass X N_spots amp_desired alpha_RPC l s =
     (let s1 = run_kernel [d_SLM_cc s, d_FFTo_cc s]
                 (cufftExecC2C X (d_SLM_cc s) (d_FFTo_cc s) True) s;
          s2 = launch 1 N_spots
                 [d_FFTo_cc s1, d_FFTd_cc s1, d_spot_index s1, d_amps s1, d_weights s1]
                 (ReplaceAmpsSpots_FFT X N_spots l amp_desired) s1;
          s3 = run_kernel [d_FFTd_cc s2, d_SLM_cc s2]
                 (cufftExecC2C X (d_FFTd_cc s2) (d_SLM_cc s2) False) s2
      in launch (n_blocks_Phi s3) (BLOCK_SIZE X) [d_aLaserFFT s3, d_SLM_cc s3, d_pSLMstart_f s3]
           (ReplaceAmpsSLM_FFT X alpha_RPC) s3)"





subsection \<open>startCUDAandSLM and stopCUDAandSLM\<close>

text \<open>Integer division and remainder of C, which truncate towards zero.\<close>

definition c_div :: "int \<Rightarrow> int \<Rightarrow> int" where
  "c_div a b = (if (a < 0) = (b < 0) then \<bar>a\<bar> div \<bar>b\<bar> else - (\<bar>a\<bar> div \<bar>b\<bar>))"

definition c_mod :: "int \<Rightarrow> int \<Rightarrow> int" where
  "c_mod a b = a - b * c_div a b"

definition MaxIterations :: int where
  "MaxIterations = 1000"

text \<open>
  Lines 299 to 313. The properties of the device come from the driver
  (\<open>maxThreadsPerBlock\<close>); a failure of \<^verbatim>\<open>cudaSetDevice\<close> is not modelled.
\<close>

definition start_globals :: "'v externals \<Rightarrow> 'v state \<Rightarrow> 'v state" where
  "start_globals X s =
     (let s1 = s\<lparr>maxThreads_device := maxThreadsPerBlock X, data_w := SLM_SIZE X\<rparr>;
          s2 = s1\<lparr>N_pixels := data_w s1 * data_w s1, N_iterations_last := 10,
                  memsize_spotsf := BLOCK_SIZE X\<rparr>;
          s3 = s2\<lparr>memsize_SLMf := N_pixels s2, memsize_SLMuc := N_pixels s2,
                  memsize_SLMcc := N_pixels s2\<rparr>
      in s3\<lparr>n_blocks_Phi := c_div (N_pixels s3) (BLOCK_SIZE X)
                               + (if c_mod (N_pixels s3) (BLOCK_SIZE X) = 0 then 0 else 1)\<rparr>)"

text \<open>
  Lines 315 to 343. \<open>MaxSpots\<close> is \<^verbatim>\<open>BLOCK_SIZE\<close>. The local array \<^verbatim>\<open>h_weights\<close> has 10000
  cells, of which the first \<^verbatim>\<open>BLOCK_SIZE\<close> are set to 1.
\<close>

definition start_allocate :: "'v externals \<Rightarrow> 'v state \<Rightarrow> 'v state" where
  "start_allocate X s =
     (let MaxSpots = BLOCK_SIZE X;
          h_weights = fill (Some (f_one X)) (BLOCK_SIZE X) 0 (replicate 10000 None);
          a1 = (let (p, r) = cudaMalloc (d_x s) (memsize_spotsf s) (dev s) in s\<lparr>d_x := p, dev := r\<rparr>);
          a2 = (let (p, r) = cudaMalloc (d_y a1) (memsize_spotsf a1) (dev a1) in a1\<lparr>d_y := p, dev := r\<rparr>);
          a3 = (let (p, r) = cudaMalloc (d_z a2) (memsize_spotsf a2) (dev a2) in a2\<lparr>d_z := p, dev := r\<rparr>);
          a4 = (let (p, r) = cudaMalloc (d_I a3) (memsize_spotsf a3) (dev a3) in a3\<lparr>d_I := p, dev := r\<rparr>);
          a5 = (let (p, r) = cudaMalloc (d_weights a4) (BLOCK_SIZE X * (MaxIterations + 1)) (dev a4)
                in a4\<lparr>d_weights := p, dev := r\<rparr>);
          a6 = (let (p, r) = cudaMalloc (d_amps a5) (BLOCK_SIZE X * MaxIterations) (dev a5)
                in a5\<lparr>d_amps := p, dev := r\<rparr>);
          a7 = (let (p, r) = cudaMalloc (d_spotRe_f a6) (memsize_spotsf a6) (dev a6)
                in a6\<lparr>d_spotRe_f := p, dev := r\<rparr>);
          a8 = (let (p, r) = cudaMalloc (d_spotIm_f a7) (memsize_spotsf a7) (dev a7)
                in a7\<lparr>d_spotIm_f := p, dev := r\<rparr>);
          a9 = (let (p, r) = cudaMalloc (d_pSLM_f a8) (memsize_SLMf a8) (dev a8)
                in a8\<lparr>d_pSLM_f := p, dev := r\<rparr>);
          a10 = (let (p, r) = cudaMalloc (d_pSLMstart_f a9) (memsize_SLMf a9) (dev a9)
                 in a9\<lparr>d_pSLMstart_f := p, dev := r\<rparr>);
          a11 = (let (p, r) = cudaMalloc (d_pSLM_uc a10) (memsize_SLMuc a10) (dev a10)
                 in a10\<lparr>d_pSLM_uc := p, dev := r\<rparr>);
          a12 = on_dev (cudaMemset (d_pSLM_f a11) (f_zero X) (N_pixels a11)) a11;
          a13 = (let (p, r) = cudaMalloc (d_spot_index a12) (BLOCK_SIZE X) (dev a12)
                 in a12\<lparr>d_spot_index := p, dev := r\<rparr>);
          a14 = (let (p, r) = cudaMalloc (d_FFTd_cc a13) (memsize_SLMcc a13) (dev a13)
                 in a13\<lparr>d_FFTd_cc := p, dev := r\<rparr>);
          a15 = (let (p, r) = cudaMalloc (d_FFTo_cc a14) (memsize_SLMcc a14) (dev a14)
                 in a14\<lparr>d_FFTo_cc := p, dev := r\<rparr>);
          a16 = (let (p, r) = cudaMalloc (d_SLM_cc a15) (memsize_SLMcc a15) (dev a15)
                 in a15\<lparr>d_SLM_cc := p, dev := r\<rparr>);
          a17 = a16\<lparr>plan := True\<rparr>;
          a18 = (let (p, r) = cudaMalloc (d_weights_start a17) MaxSpots (dev a17)
                 in a17\<lparr>d_weights_start := p, dev := r\<rparr>)
      in on_dev (\<lambda>r. snd (cudaMemcpyHostToDevice (d_weights_start a18) h_weights MaxSpots r)) a18)"

text \<open>
  Lines 347 to 361. \<^verbatim>\<open>InitalizeSLM\<close> fills the 256 cells of \<^verbatim>\<open>h_LUT_uc\<close> and returns 1 for
  the PCI hardware, 0 for the PCIe hardware.
\<close>

definition start_SLM :: "'v externals \<Rightarrow> int \<Rightarrow> string \<Rightarrow> int \<Rightarrow> 'v state \<Rightarrow> 'v state" where
  "start_SLM X EnableSLM LUTFile TrueFrames s =
     (let s1 = s\<lparr>EnableSLM_b := (EnableSLM \<noteq> 0)\<rparr>
      in if EnableSLM_b s1
         then (let bRAMWriteEnable = False;
                   (ret, h_LUT_uc) = InitalizeSLM X bRAMWriteEnable LUTFile TrueFrames;
                   s2 = s1\<lparr>ApplyLUT_b := (ret \<noteq> 0)\<rparr>;
                   s3 = (let (p, r) = cudaMalloc (d_LUT_uc s2) 256 (dev s2)
                         in s2\<lparr>d_LUT_uc := p, dev := r\<rparr>);
                   s4 = on_dev (\<lambda>r. snd (cudaMemcpyHostToDevice (d_LUT_uc s3) h_LUT_uc 256 r)) s3
               in s4\<lparr>slm_calls := SetPower True # slm_calls s4\<rparr>)
         else s1\<lparr>ApplyLUT_b := False\<rparr>)"

text \<open>
  \<^verbatim>\<open>int startCUDAandSLM(int EnableSLM, float *test, char* LUTFile,
  unsigned short TrueFrames, int deviceId)\<close>
\<close>

definition startCUDAandSLM ::
  "'v externals \<Rightarrow> int \<Rightarrow> 'v mem \<Rightarrow> string \<Rightarrow> int \<Rightarrow> int \<Rightarrow> 'v state \<Rightarrow> cudaError \<times> 'v state" where
  "startCUDAandSLM X EnableSLM test LUTFile TrueFrames deviceId s =
     return_status (start_SLM X EnableSLM LUTFile TrueFrames (start_allocate X (start_globals X s)))"

text \<open>\<^verbatim>\<open>int stopCUDAandSLM()\<close>: lines 377 to 391, then lines 393 to 409, then the rest.\<close>

definition stop_free :: "'v state \<Rightarrow> 'v state" where
  "stop_free s =
     (let s1 = on_dev (cudaFree (d_x s)) s;
          s2 = on_dev (cudaFree (d_y s1)) s1;
          s3 = on_dev (cudaFree (d_z s2)) s2;
          s4 = on_dev (cudaFree (d_I s3)) s3;
          s5 = on_dev (cudaFree (d_weights s4)) s4;
          s6 = on_dev (cudaFree (d_amps s5)) s5;
          s7 = on_dev (cudaFree (d_pSLM_f s6)) s6;
          s8 = on_dev (cudaFree (d_pSLMstart_f s7)) s7;
          s9 = on_dev (cudaFree (d_pSLM_uc s8)) s8;
          s10 = on_dev (cudaFree (d_FFTd_cc s9)) s9;
          s11 = on_dev (cudaFree (d_FFTo_cc s10)) s10;
          s12 = on_dev (cudaFree (d_SLM_cc s11)) s11
      in s12\<lparr>plan := False\<rparr>)"

definition stop_optional :: "'v state \<Rightarrow> 'v state" where
  "stop_optional s =
     (let s1 = (if ApplyLUT_b s
                then (on_dev (cudaFree (d_LUT_uc s)) s)\<lparr>d_LUT_uc := NULL\<rparr> else s);
          s2 = (if UseAberrationCorr_b s1
                then (on_dev (cudaFree (d_AberrationCorr_f s1)) s1)\<lparr>d_AberrationCorr_f := NULL\<rparr>
                else s1)
      in if UseLUTPol_b s2
         then (on_dev (cudaFree (d_LUTPolCoeff_f s2)) s2)\<lparr>d_LUTPolCoeff_f := NULL\<rparr>
         else s2)"

definition stopCUDAandSLM :: "'v state \<Rightarrow> cudaError \<times> 'v state" where
  "stopCUDAandSLM s =
     (let (st, s1) = return_status (stop_optional (stop_free s));
          s2 = on_dev cudaDeviceReset s1;
          s3 = (if EnableSLM_b s2 then s2\<lparr>slm_calls := ShutDownSLM # slm_calls s2\<rparr> else s2)
      in (st, s3))"

text \<open>
  The globals before the first call: pointers and counts are zero, the flags false, as
  their definitions at the head of the file say; nothing is allocated.
\<close>

definition initial_state :: "bool list \<Rightarrow> 'v state" where
  "initial_state oracle =
     \<lparr>dev = \<lparr>heap = (\<lambda>_. None), next_block = 1, alloc_oracle = oracle, last_error = cudaSuccess\<rparr>,
      d_x = NULL, d_y = NULL, d_z = NULL, d_I = NULL, d_pSLM_f = NULL, d_weights = NULL,
      d_weights_start = NULL, d_amps = NULL, d_pSLMstart_f = NULL, d_spotRe_f = NULL,
      d_spotIm_f = NULL, d_AberrationCorr_f = NULL, d_LUTPolCoeff_f = NULL, N_LUTPolCoeff = 0,
      n_blocks_Phi = 0, memsize_SLMf = 0, memsize_SLMuc = 0, memsize_spotsf = 0, data_w = 0,
      N_pixels = 0, N_iterations_last = 0, d_pSLM_uc = NULL, d_LUT_uc = NULL,
      maxThreads_device = 0, ApplyLUT_b = False, EnableSLM_b = False,
      UseAberrationCorr_b = False, UseLUTPol_b = False, status = cudaSuccess,
      d_aLaserFFT = NULL, d_LUT_coeff = NULL, plan = False, d_FFTo_cc = NULL, d_FFTd_cc = NULL,
      d_SLM_cc = NULL, d_spot_index = NULL, memsize_SLMcc = 0, slm_calls = []\<rparr>"

subsection \<open>GetAmps\<close>



subsection \<open>Well-formed pointers\<close>

text \<open>
  A pointer the allocator has handed out lies below \<open>next_block\<close>. The two correction
  tables come from separate allocations, so their pointers differ unless both are
  \<^verbatim>\<open>NULL\<close>.
\<close>

definition handed_out :: "'v runtime \<Rightarrow> devptr \<Rightarrow> bool" where
  "handed_out r p = (case p of NULL \<Rightarrow> True | DevPtr a \<Rightarrow> a < next_block r)"

definition correction_ptrs_ok :: "'v state \<Rightarrow> bool" where
  "correction_ptrs_ok s =
     (handed_out (dev s) (d_AberrationCorr_f s) \<and> handed_out (dev s) (d_LUTPolCoeff_f s)
      \<and> (d_AberrationCorr_f s = NULL \<or> d_AberrationCorr_f s \<noteq> d_LUTPolCoeff_f s))"

text \<open>Which addresses are allocated, and with how many cells.\<close>

definition shape :: "'v runtime \<Rightarrow> nat \<Rightarrow> nat option" where
  "shape r a = map_option length (heap r a)"

subsection \<open>A small configuration for concrete runs\<close>

text \<open>
  Cells hold reals; a block of 4 threads and a modulator of 2 by 2 pixels; kernels that
  leave the device memory as it is; a driver of the PCIe kind (\<^verbatim>\<open>InitalizeSLM\<close> returns 0).
\<close>

definition idle_kernel :: "real kernel" where
  "idle_kernel s = (cudaSuccess, heap (dev s))"

definition small_externals :: "real externals" where
  "small_externals =
     \<lparr>BLOCK_SIZE = 4, SLM_SIZE = 2, maxThreadsPerBlock = 1024,
      f_zero = 0, f_one = 1, f_two = 2, f_pi = 3, f_of_int = real_of_int,
      f_mul = (*), f_div = (/), f_sqrt = sqrt,
      InitalizeSLM = (\<lambda>_ _ _. (0, replicate 256 (Some 0))),
      LensesAndPrisms = (\<lambda>_. idle_kernel),
      PropagateToSpotPositions_Fresnel = (\<lambda>_. idle_kernel),
      PropagateToSLM_Fresnel = (\<lambda>_ _ _ _. idle_kernel),
      XYtoIndex = (\<lambda>_. idle_kernel),
      ReplaceAmpsSpots_FFT = (\<lambda>_ _ _. idle_kernel),
      ReplaceAmpsSLM_FFT = (\<lambda>_. idle_kernel),
      getPhases = idle_kernel,
      cufftExecC2C = (\<lambda>_ _ _. idle_kernel),
      point_amplitude = (\<lambda>x y z pat n w. (case x of Some v \<Rightarrow> v + 10 | None \<Rightarrow> 0))\<rparr>"

text \<open>The session that \<^verbatim>\<open>startCUDAandSLM\<close> opens there with the modulator enabled.\<close>

definition small_session :: "real state" where
  "small_session = snd (startCUDAandSLM small_externals 1 [] [] 0 0 (initial_state []))"










section \<open>Properties\<close>

subsection \<open>Unfolding the model on concrete inputs\<close>

lemmas runtime_defs =
  cudaMalloc_def granted_def cudaFree_def deref_def store_def overwrite_def raise_error_def
  cudaMemcpyHostToDevice_def cudaMemcpyDeviceToHost_def cudaMemcpyDeviceToDevice_def
  cudaMemset_def cudaGetLastError_def cudaDeviceReset_def on_dev_def return_status_def




lemmas start_defs =
  startCUDAandSLM_def start_globals_def start_allocate_def start_SLM_def c_div_def c_mod_def
  MaxIterations_def small_externals_def initial_state_def

subsection \<open>The loops\<close>

lemma fill_closed:
  "0 \<le> i \<Longrightarrow> i \<le> N \<Longrightarrow> nat N \<le> length h \<Longrightarrow>
   fill w N i h = take (nat i) h @ replicate (nat (N - i)) w @ drop (nat N) h"
proof (induction w N i h rule: fill.induct)
  case (1 w N i h)
  show ?case
  proof (cases "i < N")
    case True
    have len: "nat i < length h" using 1 True by linarith
    have "fill w N i h = fill w N (i + 1) (h[nat i := w])"
      using True by simp
    also have "\<dots> = take (nat (i + 1)) (h[nat i := w]) @ replicate (nat (N - (i + 1))) w
                      @ drop (nat N) (h[nat i := w])"
      using 1 True by simp
    also have "take (nat (i + 1)) (h[nat i := w]) = take (nat i) h @ [w]"
      using len 1(2) by (simp add: nat_add_distrib take_Suc_conv_app_nth)
    also have "drop (nat N) (h[nat i := w]) = drop (nat N) h"
      using True 1(2) by simp
    also have "(take (nat i) h @ [w]) @ replicate (nat (N - (i + 1))) w @ drop (nat N) h
             = take (nat i) h @ replicate (nat (N - i)) w @ drop (nat N) h"
    proof -
      have "nat (N - i) = Suc (nat (N - (i + 1)))" using True by linarith
      then show ?thesis by simp
    qed
    finally show ?thesis .
  next
    case False
    then have "i = N" using 1 by simp
    then show ?thesis using 1 by simp
  qed
qed

lemma fill_from_0:
  "0 \<le> N \<Longrightarrow> nat N \<le> length h \<Longrightarrow> fill w N 0 h = replicate (nat N) w @ drop (nat N) h"
  using fill_closed [of 0 N h w] by simp

declare fill.simps [simp del]

subsection \<open>Corrections: the polynomial order\<close>



lemma Ncoeff_nth:
  "3 \<le> k \<Longrightarrow> k \<le> 7 \<Longrightarrow>
   Ncoeff ! nat (k - 3) = (if k = 3 then 20 else if k = 4 then 35 else if k = 5 then 56
                           else if k = 6 then 84 else 120)"
proof -
  assume "3 \<le> k" "k \<le> 7"
  then have "k = 3 \<or> k = 4 \<or> k = 5 \<or> k = 6 \<or> k = 7" by arith
  then show ?thesis by (auto simp: Ncoeff_def)
qed

lemma flags_fields [simp]:
  "UseLUTPol_b (Corrections_flags a l u k s) = (u \<noteq> 0 \<and> 3 \<le> k \<and> k \<le> 7)"
  "UseAberrationCorr_b (Corrections_flags a l u k s) = (a \<noteq> 0)"
  "ApplyLUT_b (Corrections_flags a l u k s) = (l \<noteq> 0)"
  "N_LUTPolCoeff (Corrections_flags a l u k s) =
     (if 3 \<le> k \<and> k \<le> 7 then Ncoeff ! nat (k - 3) else N_LUTPolCoeff s)"
  "d_AberrationCorr_f (Corrections_flags a l u k s) = d_AberrationCorr_f s"
  "d_LUTPolCoeff_f (Corrections_flags a l u k s) = d_LUTPolCoeff_f s"
  "memsize_SLMf (Corrections_flags a l u k s) = memsize_SLMf s"
  "dev (Corrections_flags a l u k s) = dev s"
  by (simp_all add: Corrections_flags_def Let_def)

lemma flags_rejected:
  assumes "\<not> (3 \<le> k \<and> k \<le> 7)"
  shows "Corrections_flags a l u k s = Corrections_flags a l 0 k s"
proof -
  have nr: "(3 \<le> k \<and> k \<le> 7) = False" using assms by simp
  show ?thesis by (simp add: Corrections_flags_def Let_def nr)
qed

lemma aberration_frame [simp]:
  "UseLUTPol_b (Corrections_aberration ha s) = UseLUTPol_b s"
  "d_LUTPolCoeff_f (Corrections_aberration ha s) = d_LUTPolCoeff_f s"
  "N_LUTPolCoeff (Corrections_aberration ha s) = N_LUTPolCoeff s"
  by (simp_all add: Corrections_aberration_def Let_def split_beta on_dev_def)

lemma LUTPol_frame [simp]:
  "UseAberrationCorr_b (Corrections_LUTPol hp s) = UseAberrationCorr_b s"
  "d_AberrationCorr_f (Corrections_LUTPol hp s) = d_AberrationCorr_f s"
  "N_LUTPolCoeff (Corrections_LUTPol hp s) = N_LUTPolCoeff s"
  "memsize_SLMf (Corrections_LUTPol hp s) = memsize_SLMf s"
  by (simp_all add: Corrections_LUTPol_def Let_def split_beta on_dev_def)

lemma LUTPol_off: "\<not> UseLUTPol_b s \<Longrightarrow> \<not> UseLUTPol_b (Corrections_LUTPol hp s)"
  by (simp add: Corrections_LUTPol_def on_dev_def)

lemma return_status_fields [simp]:
  "UseLUTPol_b (snd (return_status s)) = UseLUTPol_b s"
  "UseAberrationCorr_b (snd (return_status s)) = UseAberrationCorr_b s"
  "N_LUTPolCoeff (snd (return_status s)) = N_LUTPolCoeff s"
  "d_AberrationCorr_f (snd (return_status s)) = d_AberrationCorr_f s"
  "d_LUTPolCoeff_f (snd (return_status s)) = d_LUTPolCoeff_f s"
  "d_LUT_uc (snd (return_status s)) = d_LUT_uc s"
  "heap (dev (snd (return_status s))) = heap (dev s)"
  "next_block (dev (snd (return_status s))) = next_block (dev s)"
  "fst (return_status s) = last_error (dev s)"
  by (simp_all add: return_status_def cudaGetLastError_def split_beta)

lemma Corrections_quiet:
  assumes "a = 0" "\<not> (3 \<le> k \<and> k \<le> 7)" "last_error (dev s) = cudaSuccess"
    "d_AberrationCorr_f s = NULL" "d_LUTPolCoeff_f s = NULL"
  shows "fst (Corrections a ha l u k hp s) = cudaSuccess"
proof -
  have nr: "(3 \<le> k \<and> k \<le> 7) = False" using assms(2) by simp
  show ?thesis
    using assms(1,3,4,5)
    by (simp add: Corrections_def Corrections_LUTPol_def Corrections_aberration_def nr)
qed

text \<open>
  Claim C6. In every call of \<^verbatim>\<open>Corrections\<close> an order from 3 to 7 sets the coefficient count
  to 20, 35, 56, 84 or 120 respectively. Any other order switches the polynomial
  correction off whatever the caller asked for, leaves the count as it was, and the call
  is the call that did not ask for the correction, status included: the rejection raises
  no error of its own, and in a session with no pending error and no correction buffers
  the status is \<open>cudaSuccess\<close>.
\<close>

theorem Corrections_PolOrder:
  "(if 3 \<le> PolOrder \<and> PolOrder \<le> 7
    then N_LUTPolCoeff (snd (Corrections a ha l u PolOrder hp s)) =
           (if PolOrder = 3 then 20 else if PolOrder = 4 then 35 else if PolOrder = 5 then 56
            else if PolOrder = 6 then 84 else 120)
    else \<not> UseLUTPol_b (snd (Corrections a ha l u PolOrder hp s))
         \<and> N_LUTPolCoeff (snd (Corrections a ha l u PolOrder hp s)) = N_LUTPolCoeff s
         \<and> Corrections a ha l u PolOrder hp s = Corrections a ha l 0 PolOrder hp s
         \<and> (a = 0 \<and> last_error (dev s) = cudaSuccess \<and> d_AberrationCorr_f s = NULL
              \<and> d_LUTPolCoeff_f s = NULL
            \<longrightarrow> fst (Corrections a ha l u PolOrder hp s) = cudaSuccess))"
proof (cases "3 \<le> PolOrder \<and> PolOrder \<le> 7")
  case True
  then show ?thesis
    using Ncoeff_nth [of PolOrder] by (simp add: Corrections_def)
next
  case False
  then have nr: "(3 \<le> PolOrder \<and> PolOrder \<le> 7) = False" by simp
  have "\<not> UseLUTPol_b (snd (Corrections a ha l u PolOrder hp s))"
    by (simp add: Corrections_def LUTPol_off nr)
  moreover have "N_LUTPolCoeff (snd (Corrections a ha l u PolOrder hp s)) = N_LUTPolCoeff s"
    by (simp add: Corrections_def nr)
  moreover have "Corrections a ha l u PolOrder hp s = Corrections a ha l 0 PolOrder hp s"
    by (simp add: Corrections_def flags_rejected [OF False, of a l u s])
  ultimately show ?thesis
    using Corrections_quiet [of a PolOrder s ha l u hp] by (simp add: nr)
qed


theorem Corrections_PolOrder_witness:
  "N_LUTPolCoeff (snd (Corrections 0 [] 0 1 5 [] (initial_state [] :: real state))) = 56
   \<and> \<not> UseLUTPol_b (snd (Corrections 0 [] 0 1 9 [] (initial_state [] :: real state)))
   \<and> fst (Corrections 0 [] 0 1 9 [] (initial_state [] :: real state)) = cudaSuccess"
proof -
  let ?s = "initial_state [] :: real state"
  have clean: "(0::int) = 0 \<and> last_error (dev ?s) = cudaSuccess \<and> d_AberrationCorr_f ?s = NULL
                 \<and> d_LUTPolCoeff_f ?s = NULL"
    by (simp add: initial_state_def)
  have out_of_range: "((3::int) \<le> 9 \<and> (9::int) \<le> 7) = False" by simp
  have accepted: "N_LUTPolCoeff (snd (Corrections 0 [] 0 1 5 [] ?s)) = 56"
    using Corrections_PolOrder [where PolOrder = 5 and a = 0 and ha = "[]" and l = 0 and u = 1
            and hp = "[]" and s = ?s]
    by simp
  have rejected:
    "\<not> UseLUTPol_b (snd (Corrections 0 [] 0 1 9 [] ?s))
     \<and> N_LUTPolCoeff (snd (Corrections 0 [] 0 1 9 [] ?s)) = N_LUTPolCoeff ?s
     \<and> Corrections 0 [] 0 1 9 [] ?s = Corrections 0 [] 0 0 9 [] ?s
     \<and> ((0::int) = 0 \<and> last_error (dev ?s) = cudaSuccess \<and> d_AberrationCorr_f ?s = NULL
            \<and> d_LUTPolCoeff_f ?s = NULL
          \<longrightarrow> fst (Corrections 0 [] 0 1 9 [] ?s) = cudaSuccess)"
    by (rule Corrections_PolOrder [where PolOrder = 9 and a = 0 and ha = "[]" and l = 0
               and u = 1 and hp = "[]" and s = ?s, unfolded out_of_range if_False])
  from accepted rejected clean show ?thesis by blast
qed

subsection \<open>Corrections: the aberration map\<close>











lemma memcpy_H2D_next_block [simp]:
  "next_block (snd (cudaMemcpyHostToDevice p src n r)) = next_block r"
  by (cases p) (simp_all add: cudaMemcpyHostToDevice_def raise_error_def store_def deref_def
      split: option.splits)

lemma cudaFree_next_block [simp]: "next_block (cudaFree p r) = next_block r"
  by (cases p) (simp_all add: cudaFree_def raise_error_def split: option.splits)





lemma flags_ptrs_ok [simp]:
  "correction_ptrs_ok (Corrections_flags a l u k s) = correction_ptrs_ok s"
  by (simp add: correction_ptrs_ok_def)





lemma small_session_value:
  "small_session =
     \<lparr>dev =
        \<lparr>heap =
           [1 \<mapsto> replicate 4 None, 2 \<mapsto> replicate 4 None, 3 \<mapsto> replicate 4 None,
            4 \<mapsto> replicate 4 None, 5 \<mapsto> replicate 4004 None,
            6 \<mapsto> replicate 4000 None, 7 \<mapsto> replicate 4 None,
            8 \<mapsto> replicate 4 None, 10 \<mapsto> replicate 4 None,
            11 \<mapsto> replicate 4 None, 9 \<mapsto> replicate 4 (Some 0),
            12 \<mapsto> replicate 4 None, 13 \<mapsto> replicate 4 None,
            14 \<mapsto> replicate 4 None, 15 \<mapsto> replicate 4 None,
            16 \<mapsto> replicate 4 (Some 1), 17 \<mapsto> replicate 256 (Some 0)],
           next_block = 18, alloc_oracle = [], last_error = cudaSuccess\<rparr>,
        d_x = DevPtr 1, d_y = DevPtr 2, d_z = DevPtr 3, d_I = DevPtr 4,
        d_pSLM_f = DevPtr 9, d_weights = DevPtr 5,
        d_weights_start = DevPtr 16, d_amps = DevPtr 6,
        d_pSLMstart_f = DevPtr 10, d_spotRe_f = DevPtr 7,
        d_spotIm_f = DevPtr 8, d_AberrationCorr_f = NULL,
        d_LUTPolCoeff_f = NULL, N_LUTPolCoeff = 0, n_blocks_Phi = 1,
        memsize_SLMf = 4, memsize_SLMuc = 4, memsize_spotsf = 4, data_w = 2,
        N_pixels = 4, N_iterations_last = 10, d_pSLM_uc = DevPtr 11,
        d_LUT_uc = DevPtr 17, maxThreads_device = 1024, ApplyLUT_b = False,
        EnableSLM_b = True, UseAberrationCorr_b = False, UseLUTPol_b = False,
        status = cudaSuccess, d_aLaserFFT = NULL, d_LUT_coeff = NULL,
        plan = True, d_FFTo_cc = DevPtr 14, d_FFTd_cc = DevPtr 13,
        d_SLM_cc = DevPtr 15, d_spot_index = DevPtr 12, memsize_SLMcc = 4,
        slm_calls = [SetPower True]\<rparr>"
  by (simp add: small_session_def start_defs runtime_defs fill_from_0 Let_def
     del: One_nat_def cong: let_weak_cong)




subsection \<open>Corrections: flags and buffers\<close>








subsection \<open>The end of a session\<close>

lemmas stop_defs = stopCUDAandSLM_def stop_free_def stop_optional_def

lemma stop_free_LUT [simp]:
  "d_LUT_uc (stop_free s) = d_LUT_uc s" "ApplyLUT_b (stop_free s) = ApplyLUT_b s"
  by (simp_all add: stop_free_def Let_def on_dev_def)

lemma stop_optional_LUT:
  "d_LUT_uc (stop_optional s) = (if ApplyLUT_b s then NULL else d_LUT_uc s)"
  by (simp add: stop_optional_def Let_def on_dev_def)

lemma stop_keeps_LUT_pointer:
  "d_LUT_uc (snd (stopCUDAandSLM s)) = (if ApplyLUT_b s then NULL else d_LUT_uc s)"
  by (simp add: stopCUDAandSLM_def split_beta Let_def on_dev_def stop_optional_LUT)

text \<open>
  Claim C3, at a session on the PCIe hardware (\<^verbatim>\<open>InitalizeSLM\<close> returns 0, so the lookup table
  is allocated and \<open>ApplyLUT_b\<close> is false). \<^verbatim>\<open>stopCUDAandSLM\<close> frees twelve buffers itself; the
  buffers of \<open>d_spotRe_f\<close>, \<open>d_spotIm_f\<close>, \<open>d_spot_index\<close>, \<open>d_weights_start\<close> and \<open>d_LUT_uc\<close> are
  still allocated when it reaches \<^verbatim>\<open>cudaDeviceReset\<close>, which releases them; and on return
  the pointer \<open>d_LUT_uc\<close> is not \<^verbatim>\<open>NULL\<close>: it still holds the address of the released table.
\<close>

theorem stop_leaves_LUT_pointer:
  "d_LUT_uc small_session = DevPtr 17
   \<and> deref (dev small_session) (DevPtr 17) = Some (replicate 256 (Some 0))
   \<and> map (\<lambda>a. heap (dev (stop_optional (stop_free small_session))) a = None)
        [1, 2, 3, 4, 5, 6, 7, 8, 9, 10, 11, 12, 13, 14, 15, 16, 17]
      = [True, True, True, True, True, True, False, False, True, True, True, False, True, True,
         True, False, False]
   \<and> fst (stopCUDAandSLM small_session) = cudaSuccess
   \<and> heap (dev (snd (stopCUDAandSLM small_session))) = (\<lambda>_. None)
   \<and> d_LUT_uc (snd (stopCUDAandSLM small_session)) = DevPtr 17"
  by (simp add: small_session_value stop_defs runtime_defs Let_def
      del: One_nat_def cong: let_weak_cong)

subsection \<open>The runtime operations\<close>

lemma overwrite_length [simp]:
  "n \<le> length src \<Longrightarrow> n \<le> length dst \<Longrightarrow> length (overwrite n src dst) = length dst"
  by (simp add: overwrite_def)







lemma commit_same [simp]: "commit ptrs h h = h"
  by (rule ext) (simp add: commit_def split: option.splits)


subsection \<open>GenerateHologram: spot capacity and method\<close>






subsection \<open>What the device calls leave alone\<close>

lemma on_dev_fields [simp]:
  "d_x (on_dev f s) = d_x s"
  "d_y (on_dev f s) = d_y s"
  "d_z (on_dev f s) = d_z s"
  "d_I (on_dev f s) = d_I s"
  "d_pSLM_f (on_dev f s) = d_pSLM_f s"
  "d_weights (on_dev f s) = d_weights s"
  "d_weights_start (on_dev f s) = d_weights_start s"
  "d_amps (on_dev f s) = d_amps s"
  "d_pSLMstart_f (on_dev f s) = d_pSLMstart_f s"
  "d_spotRe_f (on_dev f s) = d_spotRe_f s"
  "d_spotIm_f (on_dev f s) = d_spotIm_f s"
  "d_AberrationCorr_f (on_dev f s) = d_AberrationCorr_f s"
  "d_LUTPolCoeff_f (on_dev f s) = d_LUTPolCoeff_f s"
  "N_LUTPolCoeff (on_dev f s) = N_LUTPolCoeff s"
  "n_blocks_Phi (on_dev f s) = n_blocks_Phi s"
  "memsize_SLMf (on_dev f s) = memsize_SLMf s"
  "memsize_SLMuc (on_dev f s) = memsize_SLMuc s"
  "memsize_spotsf (on_dev f s) = memsize_spotsf s"
  "data_w (on_dev f s) = data_w s"
  "N_pixels (on_dev f s) = N_pixels s"
  "N_iterations_last (on_dev f s) = N_iterations_last s"
  "d_pSLM_uc (on_dev f s) = d_pSLM_uc s"
  "d_LUT_uc (on_dev f s) = d_LUT_uc s"
  "maxThreads_device (on_dev f s) = maxThreads_device s"
  "ApplyLUT_b (on_dev f s) = ApplyLUT_b s"
  "EnableSLM_b (on_dev f s) = EnableSLM_b s"
  "UseAberrationCorr_b (on_dev f s) = UseAberrationCorr_b s"
  "UseLUTPol_b (on_dev f s) = UseLUTPol_b s"
  "status (on_dev f s) = status s"
  "d_aLaserFFT (on_dev f s) = d_aLaserFFT s"
  "d_LUT_coeff (on_dev f s) = d_LUT_coeff s"
  "plan (on_dev f s) = plan s"
  "d_FFTo_cc (on_dev f s) = d_FFTo_cc s"
  "d_FFTd_cc (on_dev f s) = d_FFTd_cc s"
  "d_SLM_cc (on_dev f s) = d_SLM_cc s"
  "d_spot_index (on_dev f s) = d_spot_index s"
  "memsize_SLMcc (on_dev f s) = memsize_SLMcc s"
  "slm_calls (on_dev f s) = slm_calls s"
  by (simp_all add: on_dev_def)

lemma run_kernel_fields [simp]:
  "d_x (run_kernel ptrs k s) = d_x s"
  "d_y (run_kernel ptrs k s) = d_y s"
  "d_z (run_kernel ptrs k s) = d_z s"
  "d_I (run_kernel ptrs k s) = d_I s"
  "d_pSLM_f (run_kernel ptrs k s) = d_pSLM_f s"
  "d_weights (run_kernel ptrs k s) = d_weights s"
  "d_weights_start (run_kernel ptrs k s) = d_weights_start s"
  "d_amps (run_kernel ptrs k s) = d_amps s"
  "d_pSLMstart_f (run_kernel ptrs k s) = d_pSLMstart_f s"
  "d_spotRe_f (run_kernel ptrs k s) = d_spotRe_f s"
  "d_spotIm_f (run_kernel ptrs k s) = d_spotIm_f s"
  "d_AberrationCorr_f (run_kernel ptrs k s) = d_AberrationCorr_f s"
  "d_LUTPolCoeff_f (run_kernel ptrs k s) = d_LUTPolCoeff_f s"
  "N_LUTPolCoeff (run_kernel ptrs k s) = N_LUTPolCoeff s"
  "n_blocks_Phi (run_kernel ptrs k s) = n_blocks_Phi s"
  "memsize_SLMf (run_kernel ptrs k s) = memsize_SLMf s"
  "memsize_SLMuc (run_kernel ptrs k s) = memsize_SLMuc s"
  "memsize_spotsf (run_kernel ptrs k s) = memsize_spotsf s"
  "data_w (run_kernel ptrs k s) = data_w s"
  "N_pixels (run_kernel ptrs k s) = N_pixels s"
  "N_iterations_last (run_kernel ptrs k s) = N_iterations_last s"
  "d_pSLM_uc (run_kernel ptrs k s) = d_pSLM_uc s"
  "d_LUT_uc (run_kernel ptrs k s) = d_LUT_uc s"
  "maxThreads_device (run_kernel ptrs k s) = maxThreads_device s"
  "ApplyLUT_b (run_kernel ptrs k s) = ApplyLUT_b s"
  "EnableSLM_b (run_kernel ptrs k s) = EnableSLM_b s"
  "UseAberrationCorr_b (run_kernel ptrs k s) = UseAberrationCorr_b s"
  "UseLUTPol_b (run_kernel ptrs k s) = UseLUTPol_b s"
  "status (run_kernel ptrs k s) = status s"
  "d_aLaserFFT (run_kernel ptrs k s) = d_aLaserFFT s"
  "d_LUT_coeff (run_kernel ptrs k s) = d_LUT_coeff s"
  "plan (run_kernel ptrs k s) = plan s"
  "d_FFTo_cc (run_kernel ptrs k s) = d_FFTo_cc s"
  "d_FFTd_cc (run_kernel ptrs k s) = d_FFTd_cc s"
  "d_SLM_cc (run_kernel ptrs k s) = d_SLM_cc s"
  "d_spot_index (run_kernel ptrs k s) = d_spot_index s"
  "memsize_SLMcc (run_kernel ptrs k s) = memsize_SLMcc s"
  "slm_calls (run_kernel ptrs k s) = slm_calls s"
  by (simp_all add: run_kernel_def split_beta Let_def)

lemma launch_fields [simp]:
  "d_x (launch g b ptrs k s) = d_x s"
  "d_y (launch g b ptrs k s) = d_y s"
  "d_z (launch g b ptrs k s) = d_z s"
  "d_I (launch g b ptrs k s) = d_I s"
  "d_pSLM_f (launch g b ptrs k s) = d_pSLM_f s"
  "d_weights (launch g b ptrs k s) = d_weights s"
  "d_weights_start (launch g b ptrs k s) = d_weights_start s"
  "d_amps (launch g b ptrs k s) = d_amps s"
  "d_pSLMstart_f (launch g b ptrs k s) = d_pSLMstart_f s"
  "d_spotRe_f (launch g b ptrs k s) = d_spotRe_f s"
  "d_spotIm_f (launch g b ptrs k s) = d_spotIm_f s"
  "d_AberrationCorr_f (launch g b ptrs k s) = d_AberrationCorr_f s"
  "d_LUTPolCoeff_f (launch g b ptrs k s) = d_LUTPolCoeff_f s"
  "N_LUTPolCoeff (launch g b ptrs k s) = N_LUTPolCoeff s"
  "n_blocks_Phi (launch g b ptrs k s) = n_blocks_Phi s"
  "memsize_SLMf (launch g b ptrs k s) = memsize_SLMf s"
  "memsize_SLMuc (launch g b ptrs k s) = memsize_SLMuc s"
  "memsize_spotsf (launch g b ptrs k s) = memsize_spotsf s"
  "data_w (launch g b ptrs k s) = data_w s"
  "N_pixels (launch g b ptrs k s) = N_pixels s"
  "N_iterations_last (launch g b ptrs k s) = N_iterations_last s"
  "d_pSLM_uc (launch g b ptrs k s) = d_pSLM_uc s"
  "d_LUT_uc (launch g b ptrs k s) = d_LUT_uc s"
  "maxThreads_device (launch g b ptrs k s) = maxThreads_device s"
  "ApplyLUT_b (launch g b ptrs k s) = ApplyLUT_b s"
  "EnableSLM_b (launch g b ptrs k s) = EnableSLM_b s"
  "UseAberrationCorr_b (launch g b ptrs k s) = UseAberrationCorr_b s"
  "UseLUTPol_b (launch g b ptrs k s) = UseLUTPol_b s"
  "status (launch g b ptrs k s) = status s"
  "d_aLaserFFT (launch g b ptrs k s) = d_aLaserFFT s"
  "d_LUT_coeff (launch g b ptrs k s) = d_LUT_coeff s"
  "plan (launch g b ptrs k s) = plan s"
  "d_FFTo_cc (launch g b ptrs k s) = d_FFTo_cc s"
  "d_FFTd_cc (launch g b ptrs k s) = d_FFTd_cc s"
  "d_SLM_cc (launch g b ptrs k s) = d_SLM_cc s"
  "d_spot_index (launch g b ptrs k s) = d_spot_index s"
  "memsize_SLMcc (launch g b ptrs k s) = memsize_SLMcc s"
  "slm_calls (launch g b ptrs k s) = slm_calls s"
  by (simp_all add: launch_def)

lemma upload_spots_fields [simp]:
  "d_x (upload_spots xs ys zs Is n s) = d_x s"
  "d_y (upload_spots xs ys zs Is n s) = d_y s"
  "d_z (upload_spots xs ys zs Is n s) = d_z s"
  "d_I (upload_spots xs ys zs Is n s) = d_I s"
  "d_pSLM_f (upload_spots xs ys zs Is n s) = d_pSLM_f s"
  "d_weights (upload_spots xs ys zs Is n s) = d_weights s"
  "d_weights_start (upload_spots xs ys zs Is n s) = d_weights_start s"
  "d_amps (upload_spots xs ys zs Is n s) = d_amps s"
  "d_pSLMstart_f (upload_spots xs ys zs Is n s) = d_pSLMstart_f s"
  "d_spotRe_f (upload_spots xs ys zs Is n s) = d_spotRe_f s"
  "d_spotIm_f (upload_spots xs ys zs Is n s) = d_spotIm_f s"
  "d_AberrationCorr_f (upload_spots xs ys zs Is n s) = d_AberrationCorr_f s"
  "d_LUTPolCoeff_f (upload_spots xs ys zs Is n s) = d_LUTPolCoeff_f s"
  "N_LUTPolCoeff (upload_spots xs ys zs Is n s) = N_LUTPolCoeff s"
  "n_blocks_Phi (upload_spots xs ys zs Is n s) = n_blocks_Phi s"
  "memsize_SLMf (upload_spots xs ys zs Is n s) = memsize_SLMf s"
  "memsize_SLMuc (upload_spots xs ys zs Is n s) = memsize_SLMuc s"
  "data_w (upload_spots xs ys zs Is n s) = data_w s"
  "N_pixels (upload_spots xs ys zs Is n s) = N_pixels s"
  "N_iterations_last (upload_spots xs ys zs Is n s) = N_iterations_last s"
  "d_pSLM_uc (upload_spots xs ys zs Is n s) = d_pSLM_uc s"
  "d_LUT_uc (upload_spots xs ys zs Is n s) = d_LUT_uc s"
  "maxThreads_device (upload_spots xs ys zs Is n s) = maxThreads_device s"
  "ApplyLUT_b (upload_spots xs ys zs Is n s) = ApplyLUT_b s"
  "EnableSLM_b (upload_spots xs ys zs Is n s) = EnableSLM_b s"
  "UseAberrationCorr_b (upload_spots xs ys zs Is n s) = UseAberrationCorr_b s"
  "UseLUTPol_b (upload_spots xs ys zs Is n s) = UseLUTPol_b s"
  "status (upload_spots xs ys zs Is n s) = status s"
  "d_aLaserFFT (upload_spots xs ys zs Is n s) = d_aLaserFFT s"
  "d_LUT_coeff (upload_spots xs ys zs Is n s) = d_LUT_coeff s"
  "plan (upload_spots xs ys zs Is n s) = plan s"
  "d_FFTo_cc (upload_spots xs ys zs Is n s) = d_FFTo_cc s"
  "d_FFTd_cc (upload_spots xs ys zs Is n s) = d_FFTd_cc s"
  "d_SLM_cc (upload_spots xs ys zs Is n s) = d_SLM_cc s"
  "d_spot_index (upload_spots xs ys zs Is n s) = d_spot_index s"
  "memsize_SLMcc (upload_spots xs ys zs Is n s) = memsize_SLMcc s"
  "slm_calls (upload_spots xs ys zs Is n s) = slm_calls s"
  by (simp_all add: upload_spots_def Let_def)

lemma download_fields [simp]:
  "d_x (snd (download dst src n s)) = d_x s"
  "d_y (snd (download dst src n s)) = d_y s"
  "d_z (snd (download dst src n s)) = d_z s"
  "d_I (snd (download dst src n s)) = d_I s"
  "d_pSLM_f (snd (download dst src n s)) = d_pSLM_f s"
  "d_weights (snd (download dst src n s)) = d_weights s"
  "d_weights_start (snd (download dst src n s)) = d_weights_start s"
  "d_amps (snd (download dst src n s)) = d_amps s"
  "d_pSLMstart_f (snd (download dst src n s)) = d_pSLMstart_f s"
  "d_spotRe_f (snd (download dst src n s)) = d_spotRe_f s"
  "d_spotIm_f (snd (download dst src n s)) = d_spotIm_f s"
  "d_AberrationCorr_f (snd (download dst src n s)) = d_AberrationCorr_f s"
  "d_LUTPolCoeff_f (snd (download dst src n s)) = d_LUTPolCoeff_f s"
  "N_LUTPolCoeff (snd (download dst src n s)) = N_LUTPolCoeff s"
  "n_blocks_Phi (snd (download dst src n s)) = n_blocks_Phi s"
  "memsize_SLMf (snd (download dst src n s)) = memsize_SLMf s"
  "memsize_SLMuc (snd (download dst src n s)) = memsize_SLMuc s"
  "memsize_spotsf (snd (download dst src n s)) = memsize_spotsf s"
  "data_w (snd (download dst src n s)) = data_w s"
  "N_pixels (snd (download dst src n s)) = N_pixels s"
  "N_iterations_last (snd (download dst src n s)) = N_iterations_last s"
  "d_pSLM_uc (snd (download dst src n s)) = d_pSLM_uc s"
  "d_LUT_uc (snd (download dst src n s)) = d_LUT_uc s"
  "maxThreads_device (snd (download dst src n s)) = maxThreads_device s"
  "ApplyLUT_b (snd (download dst src n s)) = ApplyLUT_b s"
  "EnableSLM_b (snd (download dst src n s)) = EnableSLM_b s"
  "UseAberrationCorr_b (snd (download dst src n s)) = UseAberrationCorr_b s"
  "UseLUTPol_b (snd (download dst src n s)) = UseLUTPol_b s"
  "status (snd (download dst src n s)) = status s"
  "d_aLaserFFT (snd (download dst src n s)) = d_aLaserFFT s"
  "d_LUT_coeff (snd (download dst src n s)) = d_LUT_coeff s"
  "plan (snd (download dst src n s)) = plan s"
  "d_FFTo_cc (snd (download dst src n s)) = d_FFTo_cc s"
  "d_FFTd_cc (snd (download dst src n s)) = d_FFTd_cc s"
  "d_SLM_cc (snd (download dst src n s)) = d_SLM_cc s"
  "d_spot_index (snd (download dst src n s)) = d_spot_index s"
  "memsize_SLMcc (snd (download dst src n s)) = memsize_SLMcc s"
  "slm_calls (snd (download dst src n s)) = slm_calls s"
  by (simp_all add: download_def split_beta)

lemma synthesize_fields [simp]:
  "d_x (synthesize X n s) = d_x s" "d_y (synthesize X n s) = d_y s"
  "d_z (synthesize X n s) = d_z s" "d_amps (synthesize X n s) = d_amps s"
  "d_pSLM_uc (synthesize X n s) = d_pSLM_uc s" "N_pixels (synthesize X n s) = N_pixels s"
  "data_w (synthesize X n s) = data_w s" "memsize_SLMuc (synthesize X n s) = memsize_SLMuc s"
  by (simp_all add: synthesize_def)

subsection \<open>Calls that keep every allocation and its length\<close>

lemma shape_raise_error [simp]: "shape (raise_error e r) = shape r"
  by (rule ext) (simp add: shape_def raise_error_def)

lemma shape_store:
  "deref r p = Some c \<Longrightarrow> length c' = length c \<Longrightarrow> shape (store p c' r) = shape r"
  by (cases p) (auto simp: shape_def store_def deref_def)

lemma shape_memcpy_H2D [simp]: "shape (snd (cudaMemcpyHostToDevice p src n r)) = shape r"
  by (simp add: cudaMemcpyHostToDevice_def shape_store split: option.splits)

lemma shape_memcpy_D2H [simp]: "shape (snd (cudaMemcpyDeviceToHost dst p n r)) = shape r"
  by (simp add: cudaMemcpyDeviceToHost_def split: option.splits)

lemma shape_memcpy_D2D [simp]: "shape (cudaMemcpyDeviceToDevice p q n r) = shape r"
  by (simp add: cudaMemcpyDeviceToDevice_def shape_store split: option.splits)

lemma shape_memset [simp]: "shape (cudaMemset p z n r) = shape r"
  by (simp add: cudaMemset_def shape_store split: option.splits)

lemma shape_commit: "shape (r\<lparr>heap := commit ptrs (heap r) h\<rparr>) = shape r"
  by (rule ext) (simp add: shape_def commit_def split: option.splits)

lemma shape_run_kernel [simp]: "shape (dev (run_kernel ptrs k s)) = shape (dev s)"
  by (simp add: run_kernel_def split_beta Let_def shape_commit)

lemma shape_launch [simp]: "shape (dev (launch g b ptrs k s)) = shape (dev s)"
  by (simp add: launch_def on_dev_def)



subsection \<open>Direct superposition\<close>

lemma view_zero [simp]: "view r (p, 0) = deref r p"
  by (simp add: view_def split: option.splits)




lemma deref_download [simp]: "deref (dev (snd (download dst src n s))) p = deref (dev s) p"
  by (cases p) (simp_all add: deref_def download_def split_beta cudaMemcpyDeviceToHost_def
      raise_error_def split: option.splits)







subsection \<open>GetAmps\<close>

















subsection \<open>The seed of the Fresnel path\<close>


lemma dev_on_dev [simp]: "dev (on_dev f s) = f (dev s)"
  by (simp add: on_dev_def)






lemma heap_download [simp]: "heap (dev (snd (download dst src n s))) = heap (dev s)"
  by (simp add: download_def split_beta cudaMemcpyDeviceToHost_def raise_error_def
      split: option.splits)

lemma heap_read_back [simp]: "heap (dev (snd (snd (read_back N it pat h s)))) = heap (dev s)"
  by (simp add: read_back_def split_beta Let_def)



lemma upload_spots_memsize [simp]: "memsize_spotsf (upload_spots xs ys zs Is n s) = n"
  by (simp add: upload_spots_def Let_def)









subsection \<open>The seed of the Fourier path\<close>

lemma length_fill [simp]: "length (fill w N i h) = length h"
proof (induction w N i h rule: fill.induct)
  case (1 w N i h)
  show ?case
  proof (cases "i < N")
    case True
    then have "fill w N i h = fill w N (i + 1) (h[nat i := w])" by (simp add: fill.simps)
    then show ?thesis using 1 True by simp
  next
    case False
    then show ?thesis by (simp add: fill.simps)
  qed
qed

lemma fill_none: "N \<le> i \<Longrightarrow> fill w N i h = h"
  by (simp add: fill.simps)





lemma FFT_seed_length [simp]: "length (fst (FFT_seed X N hw s)) = length hw"
  by (simp add: FFT_seed_def Let_def)

lemma deref_raise_error [simp]: "deref (raise_error e r) p = deref r p"
  by (cases p) (simp_all add: deref_def raise_error_def)













lemma FFT_seed_fields [simp]:
  "d_pSLM_uc (snd (FFT_seed X N hw s)) = d_pSLM_uc s"
  "d_pSLMstart_f (snd (FFT_seed X N hw s)) = d_pSLMstart_f s"
  "d_SLM_cc (snd (FFT_seed X N hw s)) = d_SLM_cc s"
  "d_LUT_coeff (snd (FFT_seed X N hw s)) = d_LUT_coeff s"
  by (simp_all add: FFT_seed_def Let_def)






subsection \<open>The iteration count\<close>






lemma shape_Fresnel_seed [simp]: "shape (dev (Fresnel_seed s)) = shape (dev s)"
  by (simp add: Fresnel_seed_def Let_def)

lemma Fresnel_pass_d_amps [simp]: "d_amps (Fresnel_pass X N it a l s) = d_amps s"
  by (simp add: Fresnel_pass_def Let_def)

lemma shape_Fresnel_pass [simp]: "shape (dev (Fresnel_pass X N it a l s)) = shape (dev s)"
  by (simp add: Fresnel_pass_def Let_def)


lemma FFT_pass_d_amps [simp]: "d_amps (FFT_pass X N amp a l s) = d_amps s"
  by (simp add: FFT_pass_def Let_def)

lemma shape_FFT_pass [simp]: "shape (dev (FFT_pass X N amp a l s)) = shape (dev s)"
  by (simp add: FFT_pass_def Let_def)


lemma FFT_seed_keeps [simp]:
  "shape (dev (snd (FFT_seed X N hw s))) = shape (dev s)"
  "d_amps (snd (FFT_seed X N hw s)) = d_amps s"
  by (simp_all add: FFT_seed_def Let_def)

lemma Fresnel_seed_d_amps [simp]: "d_amps (Fresnel_seed s) = d_amps s"
  by (simp add: Fresnel_seed_def Let_def)















end
